theory Spec2Isabelle
  imports Main "HOL-Library.Word"
begin

unbundle bit_operations_syntax

section \<open>Authentication handshake of the MariaDB Node.js connector\<close>

text \<open>
  A shallow embedding of \<^verbatim>\<open>lib/cmd/handshake/authentication.js\<close>: the class
  \<^verbatim>\<open>Authentication\<close> with its methods \<^verbatim>\<open>handshakeResult\<close>,
  \<^verbatim>\<open>validateFingerPrint\<close>, \<^verbatim>\<open>dispatchAuthSwitchRequest\<close> and the static
  \<^verbatim>\<open>pluginHandler\<close>.

  A Node.js \<^verbatim>\<open>Buffer\<close> is a list of bytes, and a byte is a \<^typ>\<open>char\<close> (the 8-bit
  characters of HOL). A JavaScript string is kept as its UTF-8 encoding, so a buffer and
  a string are both of type \<^typ>\<open>string\<close>, and a string of ASCII characters is the
  list of these characters. Mutation of \<^verbatim>\<open>this\<close>, of \<^verbatim>\<open>info\<close> and of the
  packet cursor is explicit state passing; a JavaScript exception is the left summand of
  a sum type; the calls into collaborators that are not part of this file (the
  \<^verbatim>\<open>Command\<close> base class, the plugins, the promise callbacks) are written to an
  event log in the order in which the source makes them.
\<close>

subsection \<open>Bytes and strings of the platform\<close>

type_synonym bytes = string

text \<open>\<^verbatim>\<open>buf.toString('ascii', start, end)\<close> of Node.js: the slice is clamped to the
  buffer, and decoding as \<^verbatim>\<open>'ascii'\<close> unsets the highest bit of every byte.\<close>

definition toString_ascii :: "bytes \<Rightarrow> nat \<Rightarrow> nat \<Rightarrow> string" where
  "toString_ascii b start stop = map String.ascii_of (take (stop - start) (drop start b))"

text \<open>\<^verbatim>\<open>String.prototype.toLowerCase\<close> on characters below 128 (everything that
  \<^const>\<open>toString_ascii\<close> yields): only \<^verbatim>\<open>A\<close> to \<^verbatim>\<open>Z\<close> change.\<close>

definition lower_char :: "char \<Rightarrow> char" where
  "lower_char c =
     (let n = (of_char c :: nat) in if 65 \<le> n \<and> n \<le> 90 then char_of (n + 32) else c)"

definition toLowerCase :: "string \<Rightarrow> string" where
  "toLowerCase s = map lower_char s"

text \<open>\<^verbatim>\<open>buf.toString()\<close> of Node.js without an encoding decodes UTF-8: a well-formed
  sequence is the character it encodes, and every maximal ill-formed part, also a
  sequence cut off by the end, becomes the replacement character U+FFFD, whose UTF-8
  encoding is \<^verbatim>\<open>EF BF BD\<close>. A lead byte \<^verbatim>\<open>C2\<close> to \<^verbatim>\<open>DF\<close> takes one
  continuation byte, \<^verbatim>\<open>E0\<close> to \<^verbatim>\<open>EF\<close> two, \<^verbatim>\<open>F0\<close> to \<^verbatim>\<open>F4\<close> three; the
  first continuation byte is narrowed after \<^verbatim>\<open>E0\<close>, \<^verbatim>\<open>ED\<close>, \<^verbatim>\<open>F0\<close> and
  \<^verbatim>\<open>F4\<close> (no overlong forms, no surrogates, nothing above U+10FFFF).\<close>

definition replacement :: string where
  "replacement = [CHR 0xEF, CHR 0xBF, CHR 0xBD]"

definition in_range :: "nat \<Rightarrow> nat \<Rightarrow> char \<Rightarrow> bool" where
  "in_range lo hi c = (lo \<le> (of_char c :: nat) \<and> (of_char c :: nat) \<le> hi)"

fun toString_utf8 :: "bytes \<Rightarrow> string" where
  "toString_utf8 [] = []"
| "toString_utf8 (b # bs) =
     (let n = (of_char b :: nat) in
      if n < 0x80 then b # toString_utf8 bs
      else if 0xC2 \<le> n \<and> n \<le> 0xDF then
        (case bs of
           [] \<Rightarrow> replacement
         | c # r1 \<Rightarrow>
             if in_range 0x80 0xBF c then b # c # toString_utf8 r1
             else replacement @ toString_utf8 bs)
      else if 0xE0 \<le> n \<and> n \<le> 0xEF then
        (case bs of
           [] \<Rightarrow> replacement
         | c # r1 \<Rightarrow>
             if in_range (if n = 0xE0 then 0xA0 else 0x80) (if n = 0xED then 0x9F else 0xBF) c
             then (case r1 of
                     [] \<Rightarrow> replacement
                   | d # r2 \<Rightarrow>
                       if in_range 0x80 0xBF d then b # c # d # toString_utf8 r2
                       else replacement @ toString_utf8 r1)
             else replacement @ toString_utf8 bs)
      else if 0xF0 \<le> n \<and> n \<le> 0xF4 then
        (case bs of
           [] \<Rightarrow> replacement
         | c # r1 \<Rightarrow>
             if in_range (if n = 0xF0 then 0x90 else 0x80) (if n = 0xF4 then 0x8F else 0xBF) c
             then (case r1 of
                     [] \<Rightarrow> replacement
                   | d # r2 \<Rightarrow>
                       if in_range 0x80 0xBF d
                       then (case r2 of
                               [] \<Rightarrow> replacement
                             | e # r3 \<Rightarrow>
                                 if in_range 0x80 0xBF e
                                 then b # c # d # e # toString_utf8 r3
                                 else replacement @ toString_utf8 r2)
                       else replacement @ toString_utf8 r1)
             else replacement @ toString_utf8 bs)
      else replacement @ toString_utf8 bs)"

text \<open>The character sets a read of the cursor can be given; the source passes
  \<^verbatim>\<open>'ascii'\<close> or nothing. A read without one decodes as \<^verbatim>\<open>toString()\<close> does, a
  read with \<^verbatim>\<open>'ascii'\<close> as \<^verbatim>\<open>toString('ascii')\<close> does.\<close>

datatype charset = Ascii

definition decode :: "charset option \<Rightarrow> bytes \<Rightarrow> string" where
  "decode cs b = (case cs of None \<Rightarrow> toString_utf8 b | Some Ascii \<Rightarrow> map String.ascii_of b)"

text \<open>\<^verbatim>\<open>Buffer.from(s, 'hex')\<close> of Node.js: two hexadecimal digits give one byte, and
  decoding stops at the first pair that is not hexadecimal (a last single digit is
  dropped).\<close>

definition unhex :: "char \<Rightarrow> nat option" where
  "unhex c =
     (let n = (of_char c :: nat) in
      if 48 \<le> n \<and> n \<le> 57 then Some (n - 48)
      else if 97 \<le> n \<and> n \<le> 102 then Some (n - 87)
      else if 65 \<le> n \<and> n \<le> 70 then Some (n - 55)
      else None)"

fun Buffer_from_hex :: "string \<Rightarrow> bytes" where
  "Buffer_from_hex (a # b # rest) =
     (case (unhex a, unhex b) of
        (Some h, Some l) \<Rightarrow> char_of (16 * h + l) # Buffer_from_hex rest
      | _ \<Rightarrow> [])"
| "Buffer_from_hex _ = []"

text \<open>Modelled from the spec: \<^verbatim>\<open>utils.toHexString\<close> (\<^verbatim>\<open>lib/misc/utils.js\<close>) is not
  among the sources. The spec calls its result ``the hex encoding of the computed
  digest'': two digits per byte, most significant first; the digits are the lower-case
  ones, as those of \<^verbatim>\<open>Number.prototype.toString(16)\<close>.\<close>

definition hex_digit :: "nat \<Rightarrow> char" where
  "hex_digit n = ''0123456789abcdef'' ! (n mod 16)"

definition toHexString :: "bytes \<Rightarrow> string" where
  "toHexString b =
     concat (map (\<lambda>c. [hex_digit ((of_char c :: nat) div 16), hex_digit (of_char c)]) b)"

text \<open>\<^verbatim>\<open>Array.prototype.toString\<close> on an array of strings: the elements joined by
  commas.\<close>

fun Array_toString :: "string list \<Rightarrow> string" where
  "Array_toString [] = []"
| "Array_toString [x] = x"
| "Array_toString (x # y # ys) = x @ '','' @ Array_toString (y # ys)"

subsection \<open>Errors\<close>

text \<open>Modelled from the spec: the table of driver error codes (\<^verbatim>\<open>lib/misc/errors.js\<close>)
  is not among the sources. The spec lists the standardized codes by kind
  (unsupported-mechanism, mechanism-not-permitted, self-signed-no-secret,
  self-signed-validation-failed, unexpected-packet-type, server-error); each is the
  constant the source names, and a code sent by the server is its number.\<close>

datatype errno =
    Server_Errno nat
  | ER_AUTHENTICATION_BAD_PACKET
  | ER_AUTHENTICATION_PLUGIN_NOT_SUPPORTED
  | ER_NOT_SUPPORTED_AUTH_PLUGIN
  | ER_SELF_SIGNED
  | ER_SELF_SIGNED_NO_PWD

text \<open>Modelled from the spec: the Error Record ``(message, fatal: bool, SQLSTATE code,
  driver error code)'' built by \<^verbatim>\<open>Errors.createError\<close>, which is not among the sources.
  The message is the text handed to the constructor.\<close>

record error_record =
  message :: string
  fatal :: bool
  sqlState :: string
  errno :: errno

text \<open>What a JavaScript \<^verbatim>\<open>throw\<close> can carry here: a driver error, the
  \<^verbatim>\<open>TypeError\<close> of the language (a method of \<^verbatim>\<open>null\<close>, a call of something that is
  no function, \<^verbatim>\<open>new\<close> on something that is no constructor) and the
  \<^verbatim>\<open>AssertionError\<close> of \<^verbatim>\<open>node:assert/strict\<close>.\<close>

datatype js_error =
    Sql_Error error_record
  | TypeError
  | AssertionError

subsection \<open>The packet cursor\<close>

text \<open>Modelled from the spec: the Packet Cursor (\<^verbatim>\<open>lib/io/packet.js\<close>) is not among the
  sources. The spec calls it a ``sequential reader over one inbound protocol packet''
  and gives its interface: \<^verbatim>\<open>peek()\<close>, \<^verbatim>\<open>skip(n)\<close>, \<^verbatim>\<open>remaining()\<close>,
  \<^verbatim>\<open>readUInt16()\<close>, \<^verbatim>\<open>skipLengthCodedNumber()\<close>, \<^verbatim>\<open>readBufferLengthEncoded()\<close>,
  \<^verbatim>\<open>readStringNullEnded(charset?)\<close>, \<^verbatim>\<open>readBufferRemaining()\<close>,
  \<^verbatim>\<open>readError(context)\<close>. The cursor is the packet's bytes and a position. Of
  \<^verbatim>\<open>readError\<close> the spec says only that it parses ``a standard error payload'': it
  is a parameter further down.\<close>

record packet =
  buf :: bytes
  pos :: nat

text \<open>Modelled from the spec: \<^verbatim>\<open>peek()\<close>, the byte at the position, and
  \<^verbatim>\<open>undefined\<close> when the position is past the end.\<close>

definition peek :: "packet \<Rightarrow> char option" where
  "peek p = (if pos p < length (buf p) then Some (buf p ! pos p) else None)"

text \<open>Modelled from the spec: \<^verbatim>\<open>skip(n)\<close> moves the position and reads nothing, so
  it may leave the packet.\<close>

definition skip :: "nat \<Rightarrow> packet \<Rightarrow> packet" where
  "skip n p = p\<lparr>pos := pos p + n\<rparr>"

text \<open>Modelled from the spec: \<^verbatim>\<open>remaining()\<close>, whether bytes are left behind the
  position.\<close>

definition remaining :: "packet \<Rightarrow> bool" where
  "remaining p = (pos p < length (buf p))"

text \<open>Modelled from the spec: a byte read as a number. An index past the end reads
  \<^verbatim>\<open>undefined\<close>, which the bitwise operators of JavaScript take as 0, so no read
  raises.\<close>

definition byte_at :: "packet \<Rightarrow> nat \<Rightarrow> nat" where
  "byte_at p i = (if i < length (buf p) then of_char (buf p ! i) else 0)"

text \<open>Modelled from the spec: \<^verbatim>\<open>readUInt16()\<close> and the wider fixed-size integers of
  the protocol, all little-endian.\<close>

definition readUInt16 :: "packet \<Rightarrow> nat \<times> packet" where
  "readUInt16 p = (byte_at p (pos p) + 256 * byte_at p (pos p + 1), skip 2 p)"

definition readUInt24 :: "packet \<Rightarrow> nat \<times> packet" where
  "readUInt24 p =
     (byte_at p (pos p) + 256 * byte_at p (pos p + 1) + 65536 * byte_at p (pos p + 2),
      skip 3 p)"

definition readUInt64 :: "packet \<Rightarrow> nat \<times> packet" where
  "readUInt64 p =
     (foldr (\<lambda>i acc. byte_at p (pos p + i) + 256 * acc) [0 ..< 8] 0, skip 8 p)"

text \<open>Modelled from the spec: \<^verbatim>\<open>skipLengthCodedNumber()\<close>. A length-encoded integer
  of the protocol is one byte when that byte is below \<^verbatim>\<open>0xfb\<close>; the bytes
  \<^verbatim>\<open>0xfc\<close>, \<^verbatim>\<open>0xfd\<close> and \<^verbatim>\<open>0xfe\<close> announce 2, 3 and 8 further bytes.\<close>

definition skipLengthCodedNumber :: "packet \<Rightarrow> packet" where
  "skipLengthCodedNumber p =
     (let type = byte_at p (pos p); p1 = skip 1 p in
      if type = 252 then skip 2 p1
      else if type = 253 then skip 3 p1
      else if type = 254 then skip 8 p1
      else p1)"

text \<open>Modelled from the spec: the length prefix of a length-encoded buffer.
  \<^const>\<open>None\<close> is \<^verbatim>\<open>null\<close>, for the NULL marker \<^verbatim>\<open>0xfb\<close> of the protocol; the
  byte \<^verbatim>\<open>0xff\<close> announces nothing and gives length 0.\<close>

definition readUnsignedLength :: "packet \<Rightarrow> nat option \<times> packet" where
  "readUnsignedLength p =
     (let type = byte_at p (pos p); p1 = skip 1 p in
      if type < 251 then (Some type, p1)
      else if type = 251 then (None, p1)
      else if type = 252 then (case readUInt16 p1 of (n, p2) \<Rightarrow> (Some n, p2))
      else if type = 253 then (case readUInt24 p1 of (n, p2) \<Rightarrow> (Some n, p2))
      else if type = 254 then (case readUInt64 p1 of (n, p2) \<Rightarrow> (Some n, p2))
      else (Some 0, p1))"

text \<open>Modelled from the spec: \<^verbatim>\<open>readBufferLengthEncoded()\<close>, the bytes the prefix
  announces, as far as the packet has them.\<close>

definition readBufferLengthEncoded :: "packet \<Rightarrow> bytes option \<times> packet" where
  "readBufferLengthEncoded p =
     (case readUnsignedLength p of
        (None, p1) \<Rightarrow> (None, p1)
      | (Some len, p1) \<Rightarrow> (Some (take len (drop (pos p1) (buf p1))), skip len p1))"

text \<open>Modelled from the spec: the loop of \<^verbatim>\<open>readStringNullEnded\<close>. It advances
  while bytes remain and the byte just read is not 0; the terminator is consumed, and
  the count leaves it out.\<close>

function nullEndedLoop :: "bytes \<Rightarrow> nat \<Rightarrow> nat \<Rightarrow> nat \<times> nat" where
  "nullEndedLoop b i cnt =
     (if i < length b
      then (if b ! i \<noteq> CHR 0x00 then nullEndedLoop b (i + 1) (cnt + 1) else (i + 1, cnt))
      else (i, cnt))"
  by pat_completeness auto
termination
  by (relation "measure (\<lambda>(b, i, cnt). length b - i)") auto

declare nullEndedLoop.simps [simp del]

text \<open>Modelled from the spec: \<^verbatim>\<open>readStringNullEnded(charset?)\<close>. The bytes from the
  position up to the terminator are decoded in the character set given, or as UTF-8
  when none is given.\<close>

definition readStringNullEnded :: "charset option \<Rightarrow> packet \<Rightarrow> string \<times> packet" where
  "readStringNullEnded cs p =
     (case nullEndedLoop (buf p) (pos p) 0 of
        (i, cnt) \<Rightarrow> (decode cs (take cnt (drop (pos p) (buf p))), p\<lparr>pos := i\<rparr>))"

text \<open>Modelled from the spec: \<^verbatim>\<open>readBufferRemaining()\<close>, the bytes from the position
  to the end.\<close>

definition readBufferRemaining :: "packet \<Rightarrow> bytes \<times> packet" where
  "readBufferRemaining p = (drop (pos p) (buf p), p\<lparr>pos := length (buf p)\<rparr>)"

subsection \<open>Session, options and plugins\<close>

text \<open>The connection options the handshake reads: \<^verbatim>\<open>password\<close> (absent, or a string)
  and \<^verbatim>\<open>restrictedAuth\<close> (absent, or an array of mechanism names).\<close>

record options =
  password :: "string option"
  restrictedAuth :: "string list option"

text \<open>Modelled from the spec: \<^verbatim>\<open>Capabilities.PLUGIN_AUTH\<close>
  (\<^verbatim>\<open>lib/const/capabilities.js\<close>) is not among the sources; the capability flags
  ``must expose a plugin-auth supported bit'', which in the protocol is bit 19.\<close>

definition PLUGIN_AUTH :: "64 word" where
  "PLUGIN_AUTH = push_bit 19 1"

text \<open>The fields of \<^verbatim>\<open>info\<close> (the Handshake Session of the spec) that the handshake
  reads or writes.\<close>

record info =
  status :: nat
  requireValidCert :: bool
  selfSignedCertificate :: bool
  seed :: bytes
  tlsFingerprint :: string
  clientCapabilities :: "64 word"

text \<open>The plugin classes: the initial \<^verbatim>\<open>Handshake\<close> and the six classes of the
  table \<^verbatim>\<open>authenticationPlugins\<close>.\<close>

datatype plugin_class =
    Handshake
  | NativePasswordAuth
  | ClearPasswordAuth
  | Ed25519PasswordAuth
  | PamPasswordAuth
  | Sha256PasswordAuth
  | CachingSha2PasswordAuth

text \<open>What a plugin's \<^verbatim>\<open>onPacketReceive\<close> can hold while it is not \<^verbatim>\<open>null\<close>: the
  dispatcher's entry point handed to it at construction, or a handler of its own
  conversation.\<close>

datatype handler = Multi_Auth_Resolver | Own_Conversation

text \<open>Modelled from the spec: the plugin classes (\<^verbatim>\<open>lib/cmd/handshake/auth/*.js\<close>) are
  not among the sources. A plugin is constructed ``passing forward sequence counters,
  challenge bytes, session, and a reference back to this dispatcher's
  packet-classification entry point''.\<close>

record auth_plugin =
  cls :: plugin_class
  onPacketReceive :: "handler option"
  sequenceNo :: nat
  compressSequenceNo :: nat
  pluginData :: bytes

definition new_plugin :: "plugin_class \<Rightarrow> nat \<Rightarrow> nat \<Rightarrow> bytes \<Rightarrow> auth_plugin" where
  "new_plugin c packSeq compressPackSeq data =
     \<lparr>cls = c, onPacketReceive = Some Multi_Auth_Resolver, sequenceNo = packSeq,
      compressSequenceNo = compressPackSeq, pluginData = data\<rparr>"

text \<open>What \<^verbatim>\<open>this.plugin\<close> holds: a plugin, or the object that \<^verbatim>\<open>new Object(...)\<close>
  returns (see \<open>pluginHandler\<close> below), which has none of a plugin's methods.\<close>

datatype active = Plugin auth_plugin | Plain_Object

text \<open>The collaborators whose bodies are outside this file, as parameters: SHA-256 of
  Node's \<^verbatim>\<open>crypto\<close>, of each plugin class its \<^verbatim>\<open>permitHash()\<close> and its
  \<^verbatim>\<open>hash(opts)\<close>, and the cursor's \<^verbatim>\<open>readError\<close>.\<close>

record collaborators =
  sha256 :: "bytes \<Rightarrow> bytes"
  permitHash :: "plugin_class \<Rightarrow> bool"
  hash :: "plugin_class \<Rightarrow> options \<Rightarrow> bytes"
  readError :: "packet \<Rightarrow> error_record"

text \<open>The calls that leave this file, logged in the order the source makes them:
  \<^verbatim>\<open>this.plugin.emit('end')\<close>, \<^verbatim>\<open>new pluginAuth(...)\<close>,
  \<^verbatim>\<open>this.plugin.start(out, opts, info)\<close>, \<^verbatim>\<open>this.plugin.throwError(err, info)\<close>,
  \<^verbatim>\<open>this.throwNewError(msg, fatal, info, sqlState, errno)\<close>,
  \<^verbatim>\<open>this.successEnd()\<close> and \<^verbatim>\<open>this.reject(err)\<close>. What the callee does is its
  own business and not part of this file; each call is taken to return.\<close>

datatype event =
    Plugin_emit_end plugin_class
  | Plugin_new auth_plugin
  | Object_new
  | Plugin_start plugin_class bytes
  | Plugin_throwError plugin_class error_record
  | ThrowNewError error_record
  | SuccessEnd
  | Reject js_error

text \<open>The \<^verbatim>\<open>Authentication\<close> command: the active plugin, \<^verbatim>\<open>cmdParam.opts\<close>, and the
  log of the calls made so far.\<close>

record authentication =
  plugin :: active
  cmdParam_opts :: options
  events :: "event list"

definition emit :: "event \<Rightarrow> authentication \<Rightarrow> authentication" where
  "emit e a = a\<lparr>events := events a @ [e]\<rparr>"

text \<open>\<^verbatim>\<open>this.plugin.onPacketReceive = null\<close>: on the plain object the assignment
  only adds a property.\<close>

definition clear_onPacketReceive :: "authentication \<Rightarrow> authentication" where
  "clear_onPacketReceive a =
     (case plugin a of
        Plugin p \<Rightarrow> a\<lparr>plugin := Plugin (p\<lparr>onPacketReceive := None\<rparr>)\<rparr>
      | Plain_Object \<Rightarrow> a)"

subsection \<open>validateFingerPrint\<close>

definition validateFingerPrint ::
    "collaborators \<Rightarrow> authentication \<Rightarrow> bytes \<Rightarrow> info \<Rightarrow> js_error + bool" where
  "validateFingerPrint env this validationHash info =
     (if length validationHash = 0 then Inr False
      else if validationHash ! 0 \<noteq> CHR 0x01 then Inl AssertionError
      else (case plugin this of
              Plain_Object \<Rightarrow> Inl TypeError
            | Plugin p \<Rightarrow>
                (let pwdHash = hash env (cls p) (cmdParam_opts this);
                     digest = sha256 env
                       (pwdHash @ seed info @ Buffer_from_hex (tlsFingerprint info));
                     hashHex = toHexString digest;
                     serverValidationHex =
                       toLowerCase (toString_ascii validationHash 1 (length validationHash))
                 in Inr (hashHex = serverValidationHex))))"

subsection \<open>pluginHandler\<close>

text \<open>The table \<^verbatim>\<open>authenticationPlugins\<close> is an object literal, and
  \<^verbatim>\<open>authenticationPlugins[pluginName]\<close> is a property read: a name that is no key of
  the table is looked up in \<^verbatim>\<open>Object.prototype\<close>. There \<^verbatim>\<open>constructor\<close> is the
  function \<^verbatim>\<open>Object\<close>; the other properties are built-in methods, and
  \<^verbatim>\<open>__proto__\<close> is the prototype object itself: all of them truthy, none of them
  usable with \<^verbatim>\<open>new\<close>.\<close>

definition authenticationPlugins :: "(string \<times> plugin_class) list" where
  "authenticationPlugins =
     [(''mysql_native_password'', NativePasswordAuth),
      (''mysql_clear_password'', ClearPasswordAuth),
      (''client_ed25519'', Ed25519PasswordAuth),
      (''dialog'', PamPasswordAuth),
      (''sha256_password'', Sha256PasswordAuth),
      (''caching_sha2_password'', CachingSha2PasswordAuth)]"

definition Object_prototype_methods :: "string list" where
  "Object_prototype_methods =
     [''__defineGetter__'', ''__defineSetter__'', ''hasOwnProperty'', ''__lookupGetter__'',
      ''__lookupSetter__'', ''isPrototypeOf'', ''propertyIsEnumerable'', ''toString'',
      ''valueOf'', ''__proto__'', ''toLocaleString'']"

datatype property = Undefined | Class plugin_class | Object_Function | Not_Constructor

definition property_of :: "string \<Rightarrow> property" where
  "property_of pluginName =
     (case map_of authenticationPlugins pluginName of
        Some c \<Rightarrow> Class c
      | None \<Rightarrow>
          if pluginName = ''constructor'' then Object_Function
          else if pluginName \<in> set Object_prototype_methods then Not_Constructor
          else Undefined)"

definition unsupported_error :: "string \<Rightarrow> error_record" where
  "unsupported_error pluginName =
     \<lparr>message = ''Client does not support authentication protocol '' @ [CHR 0x27]
                 @ pluginName @ [CHR 0x27] @ '' requested by server.'',
      fatal = True,
      sqlState = ''08004'',
      errno = ER_AUTHENTICATION_PLUGIN_NOT_SUPPORTED\<rparr>"

text \<open>\<^verbatim>\<open>new Object(packSeq, ...)\<close> is the wrapper object of its first argument, not a
  plugin; \<^verbatim>\<open>new\<close> on a built-in method or on a plain object is a
  \<^verbatim>\<open>TypeError\<close>.\<close>

definition pluginHandler :: "string \<Rightarrow> nat \<Rightarrow> nat \<Rightarrow> bytes \<Rightarrow> js_error + active" where
  "pluginHandler pluginName packSeq compressPackSeq data =
     (case property_of pluginName of
        Undefined \<Rightarrow> Inl (Sql_Error (unsupported_error pluginName))
      | Class c \<Rightarrow> Inr (Plugin (new_plugin c packSeq compressPackSeq data))
      | Object_Function \<Rightarrow> Inr Plain_Object
      | Not_Constructor \<Rightarrow> Inl TypeError)"

subsection \<open>dispatchAuthSwitchRequest\<close>

text \<open>The first statement of \<^verbatim>\<open>dispatchAuthSwitchRequest\<close>: the values of its local
  variables \<^verbatim>\<open>pluginName\<close> and \<^verbatim>\<open>pluginData\<close>. A capability test
  \<^verbatim>\<open>a & b\<close> is true when the conjunction is not 0; \<^verbatim>\<open>seed.slice(0, 8)\<close> is clamped
  to the seed. With plugin-auth the name is read by \<^verbatim>\<open>readStringNullEnded()\<close> behind
  the skipped header byte; without it, by \<^verbatim>\<open>readStringNullEnded('ascii')\<close> at the
  cursor, with no \<^verbatim>\<open>skip\<close> before it.\<close>

definition readAuthSwitchRequest :: "packet \<Rightarrow> info \<Rightarrow> string \<times> bytes" where
  "readAuthSwitchRequest packet info =
     (if clientCapabilities info AND PLUGIN_AUTH \<noteq> 0
      then (let p1 = skip 1 packet in
            if remaining p1
            then (case readStringNullEnded None p1 of
                    (pluginName, p2) \<Rightarrow> (pluginName, fst (readBufferRemaining p2)))
            else (''mysql_old_password'', take 8 (seed info)))
      else (case readStringNullEnded (Some Ascii) packet of
              (pluginName, p2) \<Rightarrow> (pluginName, fst (readBufferRemaining p2))))"

definition not_permitted_error :: "string \<Rightarrow> string list \<Rightarrow> error_record" where
  "not_permitted_error pluginName allowed =
     \<lparr>message = ''Unsupported authentication plugin '' @ pluginName
                 @ ''. Authorized plugin: '' @ Array_toString allowed,
      fatal = True,
      sqlState = ''42000'',
      errno = ER_NOT_SUPPORTED_AUTH_PLUGIN\<rparr>"

text \<open>An array is truthy even when empty, so \<^verbatim>\<open>opts.restrictedAuth &&
  !opts.restrictedAuth.includes(pluginName)\<close> holds for every name when the list is
  empty. Everything after the allow-list test is the \<^verbatim>\<open>try\<close> block, whose
  \<^verbatim>\<open>catch\<close> hands the exception to \<^verbatim>\<open>this.reject\<close>: the plain object has no
  \<^verbatim>\<open>emit\<close> and no \<^verbatim>\<open>start\<close>.\<close>

definition trySwitchPlugin ::
    "authentication \<Rightarrow> string \<Rightarrow> bytes \<Rightarrow> authentication" where
  "trySwitchPlugin this pluginName data =
     (case plugin this of
        Plain_Object \<Rightarrow> emit (Reject TypeError) this
      | Plugin p \<Rightarrow>
          (let this1 = clear_onPacketReceive (emit (Plugin_emit_end (cls p)) this)
           in case pluginHandler pluginName (sequenceNo p) (compressSequenceNo p) data of
                Inl err \<Rightarrow> emit (Reject err) this1
              | Inr (Plugin q) \<Rightarrow>
                  emit (Plugin_start (cls q) (pluginData q))
                    (emit (Plugin_new q) (this1\<lparr>plugin := Plugin q\<rparr>))
              | Inr Plain_Object \<Rightarrow>
                  emit (Reject TypeError)
                    (emit Object_new (this1\<lparr>plugin := Plain_Object\<rparr>))))"

definition dispatchAuthSwitchRequest ::
    "authentication \<Rightarrow> packet \<Rightarrow> options \<Rightarrow> info \<Rightarrow> authentication" where
  "dispatchAuthSwitchRequest this packet opts info =
     (case readAuthSwitchRequest packet info of
        (pluginName, data) \<Rightarrow>
          (case restrictedAuth opts of
             None \<Rightarrow> trySwitchPlugin this pluginName data
           | Some allowed \<Rightarrow>
               if pluginName \<notin> set allowed
               then emit (ThrowNewError (not_permitted_error pluginName allowed)) this
               else trySwitchPlugin this pluginName data))"

subsection \<open>handshakeResult\<close>

text \<open>\<^verbatim>\<open>Number.prototype.toString()\<close> of a byte, for the template string of the
  unexpected-packet message; a packet without a first byte has the marker
  \<^verbatim>\<open>undefined\<close>.\<close>

definition digit_char :: "nat \<Rightarrow> char" where
  "digit_char n = char_of (48 + n mod 10)"

definition Number_toString :: "nat \<Rightarrow> string" where
  "Number_toString n =
     (if n < 10 then [digit_char n]
      else if n < 100 then [digit_char (n div 10), digit_char n]
      else [digit_char (n div 100), digit_char (n div 10), digit_char n])"

definition bad_packet_error :: "char option \<Rightarrow> error_record" where
  "bad_packet_error marker =
     \<lparr>message = ''Unexpected type of packet during handshake phase : ''
                 @ (case marker of None \<Rightarrow> ''undefined''
                    | Some c \<Rightarrow> Number_toString (of_char c)),
      fatal = True,
      sqlState = ''42000'',
      errno = ER_AUTHENTICATION_BAD_PACKET\<rparr>"

definition self_signed_no_pwd_error :: error_record where
  "self_signed_no_pwd_error =
     \<lparr>message = ''Self signed certificates. Either set `ssl: { rejectUnauthorized: false }` (trust mode) or provide server certificate to client'',
      fatal = True,
      sqlState = ''08000'',
      errno = ER_SELF_SIGNED_NO_PWD\<rparr>"

definition self_signed_error :: error_record where
  "self_signed_error =
     \<lparr>message = ''self-signed certificate'',
      fatal = True,
      sqlState = ''08000'',
      errno = ER_SELF_SIGNED\<rparr>"

text \<open>The self-signed branch of the OK packet, entered after \<^verbatim>\<open>info.status\<close> is
  stored: \<^verbatim>\<open>this\<close> has its plugin callback cleared and the cursor stands behind
  the status field. A \<^verbatim>\<open>null\<close> buffer has no \<^verbatim>\<open>length\<close>, and the plain object
  has no \<^verbatim>\<open>permitHash\<close>: both are a \<^verbatim>\<open>TypeError\<close>, which like the
  \<^verbatim>\<open>AssertionError\<close> of \<^const>\<open>validateFingerPrint\<close> leaves the method uncaught.\<close>

definition selfSignedResult ::
    "collaborators \<Rightarrow> authentication \<Rightarrow> packet \<Rightarrow> info \<Rightarrow> (js_error + unit) \<times> authentication"
  where
  "selfSignedResult env this packet info =
     (let p1 = skip 2 packet;
          failed = (Inr (), emit (ThrowNewError self_signed_error) this)
      in if remaining p1
         then (case fst (readBufferLengthEncoded p1) of
                 None \<Rightarrow> (Inl TypeError, this)
               | Some validationHash \<Rightarrow>
                   if length validationHash > 0
                   then (case plugin this of
                           Plain_Object \<Rightarrow> (Inl TypeError, this)
                         | Plugin p \<Rightarrow>
                             if \<not> permitHash env (cls p)
                                \<or> password (cmdParam_opts this) = None
                                \<or> password (cmdParam_opts this) = Some []
                             then (Inr (), emit (ThrowNewError self_signed_no_pwd_error) this)
                             else (case validateFingerPrint env this validationHash info of
                                     Inl err \<Rightarrow> (Inl err, this)
                                   | Inr True \<Rightarrow> (Inr (), emit SuccessEnd this)
                                   | Inr False \<Rightarrow> failed))
                   else failed)
         else failed)"

text \<open>The head of the OK packet: the header byte and two length-encoded numbers are
  skipped, and the two bytes behind them are what \<^verbatim>\<open>info.status\<close> receives.\<close>

definition readOkStatus :: "packet \<Rightarrow> nat \<times> packet" where
  "readOkStatus packet =
     readUInt16 (skipLengthCodedNumber (skipLengthCodedNumber (skip 1 packet)))"

definition handshakeResult ::
    "collaborators \<Rightarrow> authentication \<Rightarrow> packet \<Rightarrow> options \<Rightarrow> info
       \<Rightarrow> (js_error + unit) \<times> authentication \<times> info" where
  "handshakeResult env this packet opts info =
     (let marker = peek packet in
      if marker = Some (CHR 0xFE)
      then (Inr (), dispatchAuthSwitchRequest this packet opts info, info)
      else if marker = Some (CHR 0x00)
      then (let this1 = clear_onPacketReceive this
            in case readOkStatus packet of
                 (st, p2) \<Rightarrow>
                   (let info1 = info\<lparr>status := st\<rparr> in
                    if requireValidCert info1 \<and> selfSignedCertificate info1
                    then (case selfSignedResult env this1 p2 info1 of
                            (r, this2) \<Rightarrow> (r, this2, info1))
                    else (Inr (), emit SuccessEnd this1, info1)))
      else if marker = Some (CHR 0xFF)
      then (let this1 = clear_onPacketReceive this;
                authErr = (readError env packet)\<lparr>fatal := True\<rparr>
            in case plugin this1 of
                 Plain_Object \<Rightarrow> (Inl TypeError, this1, info)
               | Plugin p \<Rightarrow> (Inr (), emit (Plugin_throwError (cls p) authErr) this1, info))
      else (Inr (), emit (ThrowNewError (bad_packet_error marker)) this, info))"

subsection \<open>What the spec asks of the comparison\<close>

text \<open>The spec of the Fingerprint Validator: the hex encoding of the digest is compared
  ``case-insensitively'' with the rest of the server's hash. Two strings are equal
  without regard to case when they are equal after case normalization.\<close>

definition equal_ignoring_case :: "string \<Rightarrow> string \<Rightarrow> bool" where
  "equal_ignoring_case a b = (toLowerCase a = toLowerCase b)"

subsection \<open>An example session\<close>


text \<open>A session to run the definitions on. Any functions may stand for the
  collaborators, since every general result below holds for all of them; here the
  digest is the first two bytes of its input and the credential hash is the
  password.\<close>

text \<open>Modelled from the spec: a parser of ``a standard error payload'', to stand for
  \<^verbatim>\<open>readError\<close> in the example. The payload of the protocol is the header byte, a
  2-byte error number, then either \<^verbatim>\<open>#\<close>, five bytes of SQLSTATE and the message, or
  the message alone under SQLSTATE \<^verbatim>\<open>HY000\<close>. This parser marks the error fatal
  only for a SQLSTATE of class \<^verbatim>\<open>08\<close> and for \<^verbatim>\<open>70100\<close>, so that the flag the
  dispatcher sets afterwards can be seen.\<close>

definition standard_error_payload :: "packet \<Rightarrow> error_record" where
  "standard_error_payload p =
     (case readUInt16 (skip 1 p) of
        (no, p1) \<Rightarrow>
          (let (state, msg) =
                 (if peek p1 = Some CHR ''#''
                  then (toString_utf8 (take 5 (drop (pos p1 + 1) (buf p1))),
                        fst (readStringNullEnded None (skip 6 p1)))
                  else (''HY000'', toString_utf8 (drop (pos p1) (buf p1))))
           in \<lparr>message = msg,
               fatal = (take 2 state = ''08'' \<or> state = ''70100''),
               sqlState = state,
               errno = Server_Errno no\<rparr>))"

definition example_env :: collaborators where
  "example_env =
     \<lparr>sha256 = take 2,
      permitHash = (\<lambda>c. c \<noteq> PamPasswordAuth),
      hash = (\<lambda>c opts. case password opts of None \<Rightarrow> [] | Some pw \<Rightarrow> pw),
      readError = standard_error_payload\<rparr>"

definition example_opts :: options where
  "example_opts = \<lparr>password = Some ''Ko'', restrictedAuth = None\<rparr>"

definition example_plugin :: auth_plugin where
  "example_plugin =
     \<lparr>cls = Handshake, onPacketReceive = Some Own_Conversation, sequenceNo = 2,
      compressSequenceNo = 0, pluginData = []\<rparr>"

definition example_this :: authentication where
  "example_this = \<lparr>plugin = Plugin example_plugin, cmdParam_opts = example_opts, events = []\<rparr>"

definition example_info :: info where
  "example_info =
     \<lparr>status = 0, requireValidCert = False, selfSignedCertificate = False,
      seed = ''0123456789abcdefghij'', tlsFingerprint = ''AB12'',
      clientCapabilities = PLUGIN_AUTH\<rparr>"

definition packet_of :: "bytes \<Rightarrow> packet" where
  "packet_of b = \<lparr>buf = b, pos = 0\<rparr>"

text \<open>An ERR packet with error number 1045 and SQLSTATE \<^verbatim>\<open>28000\<close>; the OK packet
  with both length-encoded numbers 0 and status 2; an OK packet whose numbers take 3
  and 4 bytes (10000 and 197121) and whose status is 258; the first OK packet with a
  warning count, and with a warning count and a validation hash of fewer than 251
  bytes; an AuthSwitchRequest naming a mechanism, with the challenge 1, 2, 3.\<close>

definition example_err_packet :: packet where
  "example_err_packet = packet_of ([CHR 0xFF, CHR 0x15, CHR 0x04] @ ''#28000Access denied'')"

definition example_ok_packet :: packet where
  "example_ok_packet = packet_of [CHR 0x00, CHR 0x00, CHR 0x00, CHR 0x02, CHR 0x00]"

definition example_ok_wide_packet :: packet where
  "example_ok_wide_packet =
     packet_of [CHR 0x00, CHR 0xFC, CHR 0x10, CHR 0x27, CHR 0xFD, CHR 0x01, CHR 0x02,
                CHR 0x03, CHR 0x02, CHR 0x01, CHR 0x00, CHR 0x00]"

definition example_ok_bare_packet :: packet where
  "example_ok_bare_packet =
     packet_of [CHR 0x00, CHR 0x00, CHR 0x00, CHR 0x02, CHR 0x00, CHR 0x00, CHR 0x00]"

definition example_ok_hash_packet :: "bytes \<Rightarrow> packet" where
  "example_ok_hash_packet h =
     packet_of ([CHR 0x00, CHR 0x00, CHR 0x00, CHR 0x02, CHR 0x00, CHR 0x00, CHR 0x00,
                 char_of (length h)] @ h)"

definition example_switch_packet :: "string \<Rightarrow> packet" where
  "example_switch_packet name =
     packet_of ([CHR 0xFE] @ name @ [CHR 0x00, CHR 0x01, CHR 0x02, CHR 0x03])"

text \<open>The session after TLS trusted a self-signed certificate that must be validated;
  the command without a password; options with an allow-list.\<close>

definition example_self_signed :: info where
  "example_self_signed = example_info\<lparr>requireValidCert := True, selfSignedCertificate := True\<rparr>"

definition example_no_password :: authentication where
  "example_no_password = example_this\<lparr>cmdParam_opts := example_opts\<lparr>password := None\<rparr>\<rparr>"

definition example_restricted :: options where
  "example_restricted =
     \<lparr>password = Some ''Ko'',
      restrictedAuth = Some [''mysql_native_password'', ''client_ed25519'']\<rparr>"

section \<open>Properties\<close>

subsection \<open>The fingerprint validator\<close>

lemma lower_char_hex_digit: "lower_char (hex_digit n) = hex_digit n"
proof -
  have "n mod 16 < 16" by simp
  then have "hex_digit n \<in> set ''0123456789abcdef''"
    unfolding hex_digit_def by (intro nth_mem) simp
  then show ?thesis
    by (auto simp: lower_char_def)
qed

lemma toLowerCase_toHexString: "toLowerCase (toHexString b) = toHexString b"
  by (induction b) (simp_all add: toLowerCase_def toHexString_def lower_char_hex_digit)

lemma toString_ascii_tail:
  "toString_ascii b (Suc 0) (length b) = map String.ascii_of (tl b)"
  by (simp add: toString_ascii_def drop_Suc)

text \<open>Claim C3. For a non-empty validation hash whose first byte is \<^verbatim>\<open>0x01\<close>, and with a
  plugin active, \<^verbatim>\<open>validateFingerPrint\<close> returns a boolean, and it is true exactly when
  the hex encoding of SHA-256 over the plugin's credential hash of the configured
  options, followed by the session seed, followed by the bytes of the certificate
  fingerprint, equals without regard to case the rest of the validation hash read as
  ASCII. The hex encoding is in lower case already, so normalizing the server's side
  alone, as the source does, is the comparison without regard to case.\<close>

theorem validateFingerPrint_compares_hex:
  assumes "validationHash \<noteq> []" and "hd validationHash = CHR 0x01"
    and "plugin this = Plugin p"
  shows "validateFingerPrint env this validationHash info =
           Inr (equal_ignoring_case
                  (toHexString (sha256 env (hash env (cls p) (cmdParam_opts this) @ seed info
                                             @ Buffer_from_hex (tlsFingerprint info))))
                  (map String.ascii_of (tl validationHash)))"
proof -
  have "validationHash ! 0 = CHR 0x01"
    using assms(1,2) by (simp add: hd_conv_nth)
  then show ?thesis
    using assms(1,3)
    by (simp add: validateFingerPrint_def Let_def equal_ignoring_case_def
        toLowerCase_toHexString toString_ascii_tail)
qed

theorem validateFingerPrint_compares_hex_witness:
  "[CHR 0x01] @ ''4B6F'' \<noteq> [] \<and> hd ([CHR 0x01] @ ''4B6F'') = CHR 0x01
   \<and> plugin example_this = Plugin example_plugin
   \<and> validateFingerPrint example_env example_this ([CHR 0x01] @ ''4B6F'') example_info = Inr True
   \<and> validateFingerPrint example_env example_this ([CHR 0x01] @ ''4B70'') example_info = Inr False"
proof -
  have p: "plugin example_this = Plugin example_plugin"
    by (simp add: example_this_def)
  have d: "toHexString (sha256 example_env
             (hash example_env (cls example_plugin) (cmdParam_opts example_this)
              @ seed example_info @ Buffer_from_hex (tlsFingerprint example_info))) = ''4b6f''"
    by code_simp
  have a: "equal_ignoring_case ''4b6f'' (map String.ascii_of (tl ([CHR 0x01] @ ''4B6F'')))"
    by code_simp
  have b: "\<not> equal_ignoring_case ''4b6f'' (map String.ascii_of (tl ([CHR 0x01] @ ''4B70'')))"
    by code_simp
  show ?thesis
    using validateFingerPrint_compares_hex [of "[CHR 0x01] @ ''4B6F''" example_this
        example_plugin example_env example_info]
      validateFingerPrint_compares_hex [of "[CHR 0x01] @ ''4B70''" example_this
        example_plugin example_env example_info]
    by (simp only: p d a b) simp
qed

text \<open>Claim C4. \<^verbatim>\<open>validateFingerPrint\<close> ends in the \<^verbatim>\<open>AssertionError\<close> of
  \<^verbatim>\<open>assert.equal\<close> exactly when the validation hash is non-empty and its first byte is
  not \<^verbatim>\<open>0x01\<close>: for such a hash it neither returns \<^verbatim>\<open>false\<close> nor any other value,
  and for no other hash is the assertion violated.\<close>

theorem validateFingerPrint_asserts_tag:
  "validateFingerPrint env this validationHash info = Inl AssertionError
     \<longleftrightarrow> validationHash \<noteq> [] \<and> validationHash ! 0 \<noteq> CHR 0x01"
  by (auto simp: validateFingerPrint_def Let_def split: active.splits)

theorem validateFingerPrint_asserts_tag_witness:
  "validateFingerPrint example_env example_this ([CHR 0x02] @ ''4B6F'') example_info
     = Inl AssertionError
   \<and> validateFingerPrint example_env example_this ([CHR 0x01] @ ''4B6F'') example_info
     \<noteq> Inl AssertionError
   \<and> validateFingerPrint example_env example_this [] example_info = Inr False"
  using validateFingerPrint_asserts_tag [of example_env example_this "[CHR 0x02] @ ''4B6F''"
      example_info]
    validateFingerPrint_asserts_tag [of example_env example_this "[CHR 0x01] @ ''4B6F''"
      example_info]
  by (simp add: validateFingerPrint_def)

subsection \<open>Error and success packets\<close>

text \<open>Claim C1. For every packet whose first byte is \<^verbatim>\<open>0xFF\<close>, whatever the session,
  the options and the log so far, \<^verbatim>\<open>handshakeResult\<close> with a plugin active sets that
  plugin's \<^verbatim>\<open>onPacketReceive\<close> to \<^verbatim>\<open>null\<close>, takes the error that
  \<^verbatim>\<open>readError\<close> parses from the packet, sets its \<^verbatim>\<open>fatal\<close> flag and hands it to
  the plugin's \<^verbatim>\<open>throwError\<close>; nothing else is called and the session is left as
  it was.\<close>

theorem err_packet_is_fatal:
  assumes "peek packet = Some (CHR 0xFF)" and "plugin this = Plugin p"
  shows "handshakeResult env this packet opts info =
           (Inr (),
            this\<lparr>plugin := Plugin (p\<lparr>onPacketReceive := None\<rparr>),
                 events := events this
                   @ [Plugin_throwError (cls p)
                        \<lparr>message = message (readError env packet), fatal = True,
                         sqlState = sqlState (readError env packet),
                         errno = errno (readError env packet)\<rparr>]\<rparr>,
            info)"
  using assms
  by (simp add: handshakeResult_def Let_def clear_onPacketReceive_def emit_def)

theorem err_packet_is_fatal_witness:
  "peek example_err_packet = Some (CHR 0xFF) \<and> plugin example_this = Plugin example_plugin
   \<and> \<not> fatal (readError example_env example_err_packet)
   \<and> handshakeResult example_env example_this example_err_packet example_opts example_info =
       (Inr (),
        \<lparr>plugin = Plugin (example_plugin\<lparr>onPacketReceive := None\<rparr>),
         cmdParam_opts = example_opts,
         events = [Plugin_throwError Handshake
                     \<lparr>message = ''Access denied'', fatal = True, sqlState = ''28000'',
                      errno = Server_Errno 1045\<rparr>]\<rparr>,
        example_info)"
proof -
  have k: "peek example_err_packet = Some (CHR 0xFF)"
    by (simp add: example_err_packet_def packet_of_def peek_def)
  have p: "plugin example_this = Plugin example_plugin"
    by (simp add: example_this_def)
  have r: "readError example_env example_err_packet =
             \<lparr>message = ''Access denied'', fatal = False, sqlState = ''28000'',
              errno = Server_Errno 1045\<rparr>"
    by code_simp
  show ?thesis
    using err_packet_is_fatal [OF k p, of example_env example_opts example_info]
    by (simp add: k p r example_this_def example_plugin_def)
qed

text \<open>Claim C2. For every packet whose first byte is \<^verbatim>\<open>0x00\<close>, when
  \<^verbatim>\<open>requireValidCert\<close> and \<^verbatim>\<open>selfSignedCertificate\<close> are not both set,
  \<^verbatim>\<open>handshakeResult\<close> returns with the active plugin's \<^verbatim>\<open>onPacketReceive\<close> set
  to \<^verbatim>\<open>null\<close> and with one call added to the log, \<^verbatim>\<open>successEnd\<close>: no plugin is
  built or started. The status it stores is read as follows: behind the header byte
  stands the first length-encoded number, which takes 3, 4 or 9 bytes when its first
  byte is \<^verbatim>\<open>0xfc\<close>, \<^verbatim>\<open>0xfd\<close> or \<^verbatim>\<open>0xfe\<close> and 1 byte otherwise; behind it the
  second, of the same form; and the two bytes behind that, low byte first, are the
  status (a byte past the end counts as 0). For the five bytes 0, 0, 0, 2, 0 the
  status stored is 2.\<close>

theorem ok_packet_concludes:
  assumes "peek packet = Some (CHR 0x00)"
    and "\<not> (requireValidCert info \<and> selfSignedCertificate info)"
  shows "(let byte = (\<lambda>i. if i < length (buf packet) then (of_char (buf packet ! i) :: nat)
                           else 0);
              width = (\<lambda>t. if t = 252 then 3 else if t = 253 then 4 else if t = 254 then 9
                            else (1::nat));
              rows = pos packet + 1;
              insert_id = rows + width (byte rows);
              st = insert_id + width (byte insert_id)
          in handshakeResult env this packet opts info =
               (Inr (),
                this\<lparr>plugin := (case plugin this of
                                   Plugin p \<Rightarrow> Plugin (p\<lparr>onPacketReceive := None\<rparr>)
                                 | Plain_Object \<Rightarrow> Plain_Object),
                     events := events this @ [SuccessEnd]\<rparr>,
                info\<lparr>status := byte st + 256 * byte (st + 1)\<rparr>))
         \<and> (buf packet = [CHR 0x00, CHR 0x00, CHR 0x00, CHR 0x02, CHR 0x00] \<and> pos packet = 0
              \<longrightarrow> handshakeResult env this packet opts info =
                    (Inr (),
                     this\<lparr>plugin := (case plugin this of
                                        Plugin p \<Rightarrow> Plugin (p\<lparr>onPacketReceive := None\<rparr>)
                                      | Plain_Object \<Rightarrow> Plain_Object),
                          events := events this @ [SuccessEnd]\<rparr>,
                     info\<lparr>status := 2\<rparr>))"
proof -
  have c: "emit SuccessEnd (clear_onPacketReceive this) =
             this\<lparr>plugin := (case plugin this of
                                Plugin p \<Rightarrow> Plugin (p\<lparr>onPacketReceive := None\<rparr>)
                              | Plain_Object \<Rightarrow> Plain_Object),
                  events := events this @ [SuccessEnd]\<rparr>"
    by (simp add: emit_def clear_onPacketReceive_def split: active.splits)
  have h: "handshakeResult env this packet opts info =
           (Inr (), emit SuccessEnd (clear_onPacketReceive this),
            info\<lparr>status := fst (readOkStatus packet)\<rparr>)"
    using assms by (auto simp: handshakeResult_def Let_def split: prod.splits)
  define byte where "byte = (\<lambda>i. if i < length (buf packet)
                                   then (of_char (buf packet ! i) :: nat) else 0)"
  define width where "width = (\<lambda>t::nat. if t = 252 then 3 else if t = 253 then 4
                                         else if t = 254 then 9 else (1::nat))"
  have w: "buf (skipLengthCodedNumber q) = buf q
           \<and> pos (skipLengthCodedNumber q) = pos q + width (byte_at q (pos q))" for q
    by (simp add: skipLengthCodedNumber_def skip_def Let_def width_def)
  have b: "byte_at q i = byte i" if "buf q = buf packet" for q i
    using that by (simp add: byte_at_def byte_def)
  let ?p0 = "skip 1 packet"
  let ?p1 = "skipLengthCodedNumber ?p0"
  let ?p2 = "skipLengthCodedNumber ?p1"
  have p0: "buf ?p0 = buf packet" "pos ?p0 = pos packet + 1"
    by (simp_all add: skip_def)
  have p1: "buf ?p1 = buf packet" "pos ?p1 = pos packet + 1 + width (byte (pos packet + 1))"
    using w [of ?p0] b [OF p0(1)] p0 by simp_all
  have p2: "buf ?p2 = buf packet"
    "pos ?p2 = pos ?p1 + width (byte (pos ?p1))"
    using w [of ?p1] b [OF p1(1)] p1(1) by simp_all
  have r: "fst (readOkStatus packet) = byte (pos ?p2) + 256 * byte (pos ?p2 + 1)"
    using b [OF p2(1)] by (simp add: readOkStatus_def readUInt16_def)
  have s: "fst (readOkStatus packet) =
             (let byte = (\<lambda>i. if i < length (buf packet) then (of_char (buf packet ! i) :: nat)
                               else 0);
                  width = (\<lambda>t. if t = 252 then 3 else if t = 253 then 4 else if t = 254 then 9
                                else (1::nat));
                  rows = pos packet + 1;
                  insert_id = rows + width (byte rows);
                  st = insert_id + width (byte insert_id)
              in byte st + 256 * byte (st + 1))"
    unfolding Let_def byte_def [symmetric] width_def [symmetric]
    using r p2(2) p1(2) by simp
  have t: "fst (readOkStatus packet) = 2"
    if "buf packet = [CHR 0x00, CHR 0x00, CHR 0x00, CHR 0x02, CHR 0x00]" "pos packet = 0"
    using that
    by (simp add: readOkStatus_def readUInt16_def skipLengthCodedNumber_def skip_def
        byte_at_def Let_def)
  have A: "let byte = (\<lambda>i. if i < length (buf packet) then (of_char (buf packet ! i) :: nat)
                           else 0);
              width = (\<lambda>t. if t = 252 then 3 else if t = 253 then 4 else if t = 254 then 9
                            else (1::nat));
              rows = pos packet + 1;
              insert_id = rows + width (byte rows);
              st = insert_id + width (byte insert_id)
          in handshakeResult env this packet opts info =
               (Inr (),
                this\<lparr>plugin := (case plugin this of
                                   Plugin p \<Rightarrow> Plugin (p\<lparr>onPacketReceive := None\<rparr>)
                                 | Plain_Object \<Rightarrow> Plain_Object),
                     events := events this @ [SuccessEnd]\<rparr>,
                info\<lparr>status := byte st + 256 * byte (st + 1)\<rparr>)"
    unfolding Let_def by (simp only: h c s [unfolded Let_def])
  have B: "handshakeResult env this packet opts info =
                    (Inr (),
                     this\<lparr>plugin := (case plugin this of
                                        Plugin p \<Rightarrow> Plugin (p\<lparr>onPacketReceive := None\<rparr>)
                                      | Plain_Object \<Rightarrow> Plain_Object),
                          events := events this @ [SuccessEnd]\<rparr>,
                     info\<lparr>status := 2\<rparr>)"
    if "buf packet = [CHR 0x00, CHR 0x00, CHR 0x00, CHR 0x02, CHR 0x00] \<and> pos packet = 0"
    using that by (simp only: h c t)
  from A B show ?thesis by blast
qed

theorem ok_packet_concludes_witness:
  "peek example_ok_packet = Some (CHR 0x00) \<and> peek example_ok_wide_packet = Some (CHR 0x00)
   \<and> \<not> (requireValidCert example_info \<and> selfSignedCertificate example_info)
   \<and> handshakeResult example_env example_this example_ok_packet example_opts example_info =
       (Inr (),
        \<lparr>plugin = Plugin (example_plugin\<lparr>onPacketReceive := None\<rparr>),
         cmdParam_opts = example_opts, events = [SuccessEnd]\<rparr>,
        example_info\<lparr>status := 2\<rparr>)
   \<and> handshakeResult example_env example_this example_ok_wide_packet example_opts
         example_info =
       (Inr (),
        \<lparr>plugin = Plugin (example_plugin\<lparr>onPacketReceive := None\<rparr>),
         cmdParam_opts = example_opts, events = [SuccessEnd]\<rparr>,
        example_info\<lparr>status := 258\<rparr>)"
proof -
  have k: "peek example_ok_packet = Some (CHR 0x00)"
    by (simp add: example_ok_packet_def packet_of_def peek_def)
  have k': "peek example_ok_wide_packet = Some (CHR 0x00)"
    by (simp add: example_ok_wide_packet_def packet_of_def peek_def)
  have f: "\<not> (requireValidCert example_info \<and> selfSignedCertificate example_info)"
    by (simp add: example_info_def)
  have b: "buf example_ok_packet = [CHR 0x00, CHR 0x00, CHR 0x00, CHR 0x02, CHR 0x00]
           \<and> pos example_ok_packet = 0"
    by (simp add: example_ok_packet_def packet_of_def)
  have c: "example_this
             \<lparr>plugin := (case plugin example_this of
                            Plugin p \<Rightarrow> Plugin (p\<lparr>onPacketReceive := None\<rparr>)
                          | Plain_Object \<Rightarrow> Plain_Object),
              events := events example_this @ [SuccessEnd]\<rparr>
           = \<lparr>plugin = Plugin (example_plugin\<lparr>onPacketReceive := None\<rparr>),
              cmdParam_opts = example_opts, events = [SuccessEnd]\<rparr>"
    by (simp add: example_this_def)
  have t1: "handshakeResult example_env example_this example_ok_packet example_opts
              example_info =
       (Inr (),
        \<lparr>plugin = Plugin (example_plugin\<lparr>onPacketReceive := None\<rparr>),
         cmdParam_opts = example_opts, events = [SuccessEnd]\<rparr>,
        example_info\<lparr>status := 2\<rparr>)"
    using ok_packet_concludes [OF k f, of example_env example_this example_opts,
        THEN conjunct2] b
    by (simp only: c)
  have t2: "handshakeResult example_env example_this example_ok_wide_packet example_opts
              example_info =
       (Inr (),
        \<lparr>plugin = Plugin (example_plugin\<lparr>onPacketReceive := None\<rparr>),
         cmdParam_opts = example_opts, events = [SuccessEnd]\<rparr>,
        example_info\<lparr>status := 258\<rparr>)"
    using ok_packet_concludes [OF k' f, of example_env example_this example_opts,
        THEN conjunct1]
    unfolding c
    by (simp add: Let_def example_ok_wide_packet_def packet_of_def)
  from k k' f t1 t2 show ?thesis by blast
qed

subsection \<open>The mechanism switch\<close>



text \<open>Claim C5. For every packet whose first byte is \<^verbatim>\<open>0xFE\<close>, when an allow-list is
  configured and the mechanism name read from the packet is not in it,
  \<^verbatim>\<open>handshakeResult\<close> makes one call, \<^verbatim>\<open>throwNewError\<close> with a fatal error of
  SQLSTATE \<^verbatim>\<open>42000\<close> and code \<^verbatim>\<open>ER_NOT_SUPPORTED_AUTH_PLUGIN\<close> whose message
  names the mechanism and the list; the active plugin is the one it was, with its
  callback, so it got no \<^verbatim>\<open>end\<close>, and no plugin was built or started.\<close>

theorem not_permitted_fails_first:
  assumes "peek packet = Some (CHR 0xFE)"
    and "restrictedAuth opts = Some allowed"
    and "readAuthSwitchRequest packet info = (pluginName, data)"
    and "pluginName \<notin> set allowed"
  shows "handshakeResult env this packet opts info =
           (Inr (),
            this\<lparr>events := events this
                   @ [ThrowNewError
                        \<lparr>message = ''Unsupported authentication plugin '' @ pluginName
                                    @ ''. Authorized plugin: '' @ Array_toString allowed,
                         fatal = True, sqlState = ''42000'',
                         errno = ER_NOT_SUPPORTED_AUTH_PLUGIN\<rparr>]\<rparr>,
            info)"
  using assms
  by (simp add: handshakeResult_def dispatchAuthSwitchRequest_def emit_def
      not_permitted_error_def)

lemma example_clear_name:
  "readAuthSwitchRequest (example_switch_packet ''mysql_clear_password'') example_info
     = (''mysql_clear_password'', [CHR 0x01, CHR 0x02, CHR 0x03])"
  by code_simp

theorem not_permitted_fails_first_witness:
  "peek (example_switch_packet ''mysql_clear_password'') = Some (CHR 0xFE)
   \<and> restrictedAuth example_restricted = Some [''mysql_native_password'', ''client_ed25519'']
   \<and> readAuthSwitchRequest (example_switch_packet ''mysql_clear_password'') example_info
       = (''mysql_clear_password'', [CHR 0x01, CHR 0x02, CHR 0x03])
   \<and> ''mysql_clear_password'' \<notin> set [''mysql_native_password'', ''client_ed25519'']
   \<and> handshakeResult example_env example_this (example_switch_packet ''mysql_clear_password'')
         example_restricted example_info =
       (Inr (),
        \<lparr>plugin = Plugin example_plugin, cmdParam_opts = example_opts,
         events = [ThrowNewError
                     \<lparr>message = ''Unsupported authentication plugin mysql_clear_password. Authorized plugin: mysql_native_password,client_ed25519'',
                      fatal = True, sqlState = ''42000'',
                      errno = ER_NOT_SUPPORTED_AUTH_PLUGIN\<rparr>]\<rparr>,
        example_info)"
proof -
  have k: "peek (example_switch_packet ''mysql_clear_password'') = Some (CHR 0xFE)"
    by (simp add: example_switch_packet_def packet_of_def peek_def)
  have r: "restrictedAuth example_restricted
             = Some [''mysql_native_password'', ''client_ed25519'']"
    by (simp add: example_restricted_def)
  have n: "''mysql_clear_password'' \<notin> set [''mysql_native_password'', ''client_ed25519'']"
    by simp
  show ?thesis
    using not_permitted_fails_first [OF k r example_clear_name n, of example_env example_this]
    by (simp add: k r example_clear_name example_this_def)
qed

text \<open>Claim C7. With the plugin-auth capability negotiated, a packet that has no byte
  behind the one the dispatcher skips as header gives the mechanism name
  \<^verbatim>\<open>mysql_old_password\<close> and as challenge the first 8 bytes of the session seed.\<close>

theorem legacy_switch_request:
  assumes "clientCapabilities info AND PLUGIN_AUTH \<noteq> 0"
    and "length (buf packet) \<le> pos packet + 1"
  shows "readAuthSwitchRequest packet info = (''mysql_old_password'', take 8 (seed info))"
  using assms by (simp add: readAuthSwitchRequest_def Let_def remaining_def skip_def)

theorem legacy_switch_request_witness:
  "clientCapabilities example_info AND PLUGIN_AUTH \<noteq> 0
   \<and> length (buf (packet_of [CHR 0xFE])) \<le> pos (packet_of [CHR 0xFE]) + 1
   \<and> readAuthSwitchRequest (packet_of [CHR 0xFE]) example_info
       = (''mysql_old_password'', ''01234567'')"
proof -
  have c: "clientCapabilities example_info AND PLUGIN_AUTH \<noteq> 0"
    by (simp add: example_info_def PLUGIN_AUTH_def)
  have l: "length (buf (packet_of [CHR 0xFE])) \<le> pos (packet_of [CHR 0xFE]) + 1"
    by (simp add: packet_of_def)
  have t: "readAuthSwitchRequest (packet_of [CHR 0xFE]) example_info
             = (''mysql_old_password'', ''01234567'')"
    using legacy_switch_request [OF c l] by (simp add: example_info_def)
  from c l t show ?thesis by blast
qed




subsection \<open>The self-signed certificate\<close>

lemma validateFingerPrint_cleared:
  "validateFingerPrint env (clear_onPacketReceive this) validationHash (info\<lparr>status := st\<rparr>)
     = validateFingerPrint env this validationHash info"
  by (simp add: validateFingerPrint_def clear_onPacketReceive_def Let_def split: active.splits)

lemma example_hash_packet_status:
  "readOkStatus (example_ok_hash_packet h)
     = (2, \<lparr>buf = buf (example_ok_hash_packet h), pos = 5\<rparr>)"
  by (simp add: readOkStatus_def readUInt16_def skipLengthCodedNumber_def skip_def
      byte_at_def Let_def example_ok_hash_packet_def packet_of_def)

text \<open>Claim C8. On an OK packet with \<^verbatim>\<open>requireValidCert\<close> and
  \<^verbatim>\<open>selfSignedCertificate\<close> set, a plugin active and a non-empty validation hash
  behind the warning count: if the plugin's \<^verbatim>\<open>permitHash()\<close> is false, or the
  password is absent or the empty string, the one call is \<^verbatim>\<open>throwNewError\<close> with the
  fatal error of SQLSTATE \<^verbatim>\<open>08000\<close> and code \<^verbatim>\<open>ER_SELF_SIGNED_NO_PWD\<close>; if instead
  all three are in order and \<^verbatim>\<open>validateFingerPrint\<close> returns \<^verbatim>\<open>false\<close>, it is
  \<^verbatim>\<open>throwNewError\<close> with the error of code \<^verbatim>\<open>ER_SELF_SIGNED\<close>, and the two codes
  are different constants.\<close>

theorem self_signed_without_secret:
  assumes "peek packet = Some (CHR 0x00)"
    and "requireValidCert info" and "selfSignedCertificate info"
    and "plugin this = Plugin p"
    and "readOkStatus packet = (st, p2)"
    and "remaining (skip 2 p2)"
    and "fst (readBufferLengthEncoded (skip 2 p2)) = Some validationHash"
    and "validationHash \<noteq> []"
  shows "(\<not> permitHash env (cls p) \<or> password (cmdParam_opts this) = None
            \<or> password (cmdParam_opts this) = Some [] \<longrightarrow>
          handshakeResult env this packet opts info =
            (Inr (),
             this\<lparr>plugin := Plugin (p\<lparr>onPacketReceive := None\<rparr>),
                  events := events this @ [ThrowNewError self_signed_no_pwd_error]\<rparr>,
             info\<lparr>status := st\<rparr>))
       \<and> (permitHash env (cls p) \<and> password (cmdParam_opts this) \<noteq> None
            \<and> password (cmdParam_opts this) \<noteq> Some []
            \<and> validateFingerPrint env this validationHash info = Inr False \<longrightarrow>
          handshakeResult env this packet opts info =
            (Inr (),
             this\<lparr>plugin := Plugin (p\<lparr>onPacketReceive := None\<rparr>),
                  events := events this @ [ThrowNewError self_signed_error]\<rparr>,
             info\<lparr>status := st\<rparr>))
       \<and> fatal self_signed_no_pwd_error \<and> sqlState self_signed_no_pwd_error = ''08000''
       \<and> errno self_signed_no_pwd_error = ER_SELF_SIGNED_NO_PWD
       \<and> errno self_signed_error = ER_SELF_SIGNED
       \<and> errno self_signed_no_pwd_error \<noteq> errno self_signed_error"
proof -
  have v: "validateFingerPrint env (clear_onPacketReceive this) validationHash
             (info\<lparr>status := st\<rparr>) = validateFingerPrint env this validationHash info"
    by (rule validateFingerPrint_cleared)
  have c: "clear_onPacketReceive this = this\<lparr>plugin := Plugin (p\<lparr>onPacketReceive := None\<rparr>)\<rparr>"
    using assms(4) by (simp add: clear_onPacketReceive_def)
  have pc: "plugin (clear_onPacketReceive this) = Plugin (p\<lparr>onPacketReceive := None\<rparr>)"
    by (simp add: c)
  have h: "handshakeResult env this packet opts info =
             (case selfSignedResult env (clear_onPacketReceive this) p2 (info\<lparr>status := st\<rparr>) of
                (r, this2) \<Rightarrow> (r, this2, info\<lparr>status := st\<rparr>))"
    using assms(1,2,3,5) by (simp add: handshakeResult_def Let_def)
  have o: "cmdParam_opts (clear_onPacketReceive this) = cmdParam_opts this"
    by (simp add: c)
  show ?thesis
    using assms(6,7,8) v pc o
    by (auto simp: h selfSignedResult_def Let_def emit_def c
        self_signed_no_pwd_error_def self_signed_error_def)
qed

theorem self_signed_without_secret_witness:
  "peek (example_ok_hash_packet ([CHR 0x01] @ ''4B6F'')) = Some (CHR 0x00)
   \<and> requireValidCert example_self_signed \<and> selfSignedCertificate example_self_signed
   \<and> plugin example_no_password = Plugin example_plugin
   \<and> password (cmdParam_opts example_no_password) = None
   \<and> handshakeResult example_env example_no_password
        (example_ok_hash_packet ([CHR 0x01] @ ''4B6F'')) example_opts example_self_signed =
       (Inr (),
        example_no_password
          \<lparr>plugin := Plugin (example_plugin\<lparr>onPacketReceive := None\<rparr>),
           events := [ThrowNewError self_signed_no_pwd_error]\<rparr>,
        example_self_signed\<lparr>status := 2\<rparr>)
   \<and> handshakeResult example_env example_this
        (example_ok_hash_packet ([CHR 0x01] @ ''4B70'')) example_opts example_self_signed =
       (Inr (),
        example_this
          \<lparr>plugin := Plugin (example_plugin\<lparr>onPacketReceive := None\<rparr>),
           events := [ThrowNewError self_signed_error]\<rparr>,
        example_self_signed\<lparr>status := 2\<rparr>)"
proof -
  let ?good = "[CHR 0x01] @ ''4B6F''" and ?bad = "[CHR 0x01] @ ''4B70''"
  have k: "peek (example_ok_hash_packet h) = Some (CHR 0x00)" for h
    by (simp add: example_ok_hash_packet_def packet_of_def peek_def)
  have f: "requireValidCert example_self_signed" "selfSignedCertificate example_self_signed"
    by (simp_all add: example_self_signed_def)
  have p: "plugin example_no_password = Plugin example_plugin"
    "plugin example_this = Plugin example_plugin"
    by (simp_all add: example_no_password_def example_this_def)
  have r: "remaining (skip 2 \<lparr>buf = buf (example_ok_hash_packet h), pos = 5\<rparr>)" for h
    by (simp add: remaining_def skip_def example_ok_hash_packet_def packet_of_def)
  have g: "fst (readBufferLengthEncoded
                  (skip 2 \<lparr>buf = buf (example_ok_hash_packet ?good), pos = 5\<rparr>)) = Some ?good"
    by code_simp
  have b: "fst (readBufferLengthEncoded
                  (skip 2 \<lparr>buf = buf (example_ok_hash_packet ?bad), pos = 5\<rparr>)) = Some ?bad"
    by code_simp
  have n: "password (cmdParam_opts example_no_password) = None"
    by (simp add: example_no_password_def)
  have y: "permitHash example_env (cls example_plugin)
           \<and> password (cmdParam_opts example_this) \<noteq> None
           \<and> password (cmdParam_opts example_this) \<noteq> Some []"
    by (simp add: example_env_def example_plugin_def example_this_def example_opts_def)
  have v: "validateFingerPrint example_env example_this ?bad example_self_signed = Inr False"
    by code_simp
  have e: "events example_no_password = []" "events example_this = []"
    by (simp_all add: example_no_password_def example_this_def)
  have t1: "handshakeResult example_env example_no_password
        (example_ok_hash_packet ?good) example_opts example_self_signed =
       (Inr (),
        example_no_password
          \<lparr>plugin := Plugin (example_plugin\<lparr>onPacketReceive := None\<rparr>),
           events := [ThrowNewError self_signed_no_pwd_error]\<rparr>,
        example_self_signed\<lparr>status := 2\<rparr>)"
    using self_signed_without_secret [OF k f p(1) example_hash_packet_status r g,
        of example_env example_opts] n e
    by simp
  have t2: "handshakeResult example_env example_this
        (example_ok_hash_packet ?bad) example_opts example_self_signed =
       (Inr (),
        example_this
          \<lparr>plugin := Plugin (example_plugin\<lparr>onPacketReceive := None\<rparr>),
           events := [ThrowNewError self_signed_error]\<rparr>,
        example_self_signed\<lparr>status := 2\<rparr>)"
    using self_signed_without_secret [OF k f p(2) example_hash_packet_status r b,
        of example_env example_opts] y v e
    by simp
  from k f p n t1 t2 show ?thesis by blast
qed

text \<open>Claim C9. On an OK packet with \<^verbatim>\<open>requireValidCert\<close> and
  \<^verbatim>\<open>selfSignedCertificate\<close> set: if no byte remains behind the status and the
  two bytes of warning count, or the length-encoded buffer read there is empty, the one
  call is \<^verbatim>\<open>throwNewError\<close> with the fatal error of SQLSTATE \<^verbatim>\<open>08000\<close> and code
  \<^verbatim>\<open>ER_SELF_SIGNED\<close>. And whenever this call of \<^verbatim>\<open>handshakeResult\<close> logs
  \<^verbatim>\<open>successEnd\<close>, a non-empty validation hash was read for which
  \<^verbatim>\<open>validateFingerPrint\<close> returned \<^verbatim>\<open>true\<close>.\<close>

theorem self_signed_needs_matching_hash:
  assumes "peek packet = Some (CHR 0x00)"
    and "requireValidCert info" and "selfSignedCertificate info"
    and "readOkStatus packet = (st, p2)"
  shows "(\<not> remaining (skip 2 p2) \<or> fst (readBufferLengthEncoded (skip 2 p2)) = Some [] \<longrightarrow>
          handshakeResult env this packet opts info =
            (Inr (),
             emit (ThrowNewError
                     \<lparr>message = ''self-signed certificate'', fatal = True,
                      sqlState = ''08000'', errno = ER_SELF_SIGNED\<rparr>)
               (clear_onPacketReceive this),
             info\<lparr>status := st\<rparr>))
       \<and> (SuccessEnd \<in> set (drop (length (events this))
                               (events (fst (snd (handshakeResult env this packet opts info)))))
            \<longrightarrow> (\<exists>validationHash.
                   remaining (skip 2 p2)
                   \<and> fst (readBufferLengthEncoded (skip 2 p2)) = Some validationHash
                   \<and> validationHash \<noteq> []
                   \<and> validateFingerPrint env this validationHash info = Inr True))"
proof -
  have h: "handshakeResult env this packet opts info =
             (case selfSignedResult env (clear_onPacketReceive this) p2 (info\<lparr>status := st\<rparr>) of
                (r, this2) \<Rightarrow> (r, this2, info\<lparr>status := st\<rparr>))"
    using assms by (simp add: handshakeResult_def Let_def)
  have e: "events (clear_onPacketReceive this) = events this"
    by (simp add: clear_onPacketReceive_def split: active.splits)
  have a: "handshakeResult env this packet opts info =
            (Inr (), emit (ThrowNewError self_signed_error) (clear_onPacketReceive this),
             info\<lparr>status := st\<rparr>)"
    if "\<not> remaining (skip 2 p2) \<or> fst (readBufferLengthEncoded (skip 2 p2)) = Some []"
    using that by (auto simp: h selfSignedResult_def Let_def)
  have b: "\<exists>validationHash.
             remaining (skip 2 p2)
             \<and> fst (readBufferLengthEncoded (skip 2 p2)) = Some validationHash
             \<and> validationHash \<noteq> []
             \<and> validateFingerPrint env this validationHash info = Inr True"
    if "SuccessEnd \<in> set (drop (length (events this))
                            (events (fst (snd (handshakeResult env this packet opts info)))))"
    using that e validateFingerPrint_cleared [of env this _ st info]
    by (auto simp: h selfSignedResult_def Let_def emit_def
        split: if_splits option.splits active.splits sum.splits bool.splits)
  from a b show ?thesis
    by (simp add: self_signed_error_def)
qed

theorem self_signed_needs_matching_hash_witness:
  "peek example_ok_bare_packet = Some (CHR 0x00)
   \<and> requireValidCert example_self_signed \<and> selfSignedCertificate example_self_signed
   \<and> handshakeResult example_env example_this example_ok_bare_packet example_opts
        example_self_signed =
       (Inr (),
        \<lparr>plugin = Plugin (example_plugin\<lparr>onPacketReceive := None\<rparr>),
         cmdParam_opts = example_opts,
         events = [ThrowNewError
                     \<lparr>message = ''self-signed certificate'', fatal = True,
                      sqlState = ''08000'', errno = ER_SELF_SIGNED\<rparr>]\<rparr>,
        example_self_signed\<lparr>status := 2\<rparr>)
   \<and> events (fst (snd (handshakeResult example_env example_this
                         (example_ok_hash_packet ([CHR 0x01] @ ''4B6F'')) example_opts
                         example_self_signed))) = [SuccessEnd]
   \<and> (\<exists>validationHash.
         fst (readBufferLengthEncoded
                (skip 2 \<lparr>buf = buf (example_ok_hash_packet ([CHR 0x01] @ ''4B6F'')), pos = 5\<rparr>))
           = Some validationHash
         \<and> validationHash \<noteq> []
         \<and> validateFingerPrint example_env example_this validationHash example_self_signed
             = Inr True)"
proof -
  let ?good = "[CHR 0x01] @ ''4B6F''"
  have k: "peek example_ok_bare_packet = Some (CHR 0x00)"
    by (simp add: example_ok_bare_packet_def packet_of_def peek_def)
  have k': "peek (example_ok_hash_packet ?good) = Some (CHR 0x00)"
    by (simp add: example_ok_hash_packet_def packet_of_def peek_def)
  have f: "requireValidCert example_self_signed" "selfSignedCertificate example_self_signed"
    by (simp_all add: example_self_signed_def)
  have s: "readOkStatus example_ok_bare_packet
             = (2, \<lparr>buf = buf example_ok_bare_packet, pos = 5\<rparr>)"
    by (simp add: readOkStatus_def readUInt16_def skipLengthCodedNumber_def skip_def
        byte_at_def Let_def example_ok_bare_packet_def packet_of_def)
  have r: "\<not> remaining (skip 2 \<lparr>buf = buf example_ok_bare_packet, pos = 5\<rparr>)"
    by (simp add: remaining_def skip_def example_ok_bare_packet_def packet_of_def)
  have c: "clear_onPacketReceive example_this =
             \<lparr>plugin = Plugin (example_plugin\<lparr>onPacketReceive := None\<rparr>),
              cmdParam_opts = example_opts, events = []\<rparr>"
    by (simp add: clear_onPacketReceive_def example_this_def)
  have t1: "handshakeResult example_env example_this example_ok_bare_packet example_opts
        example_self_signed =
       (Inr (),
        \<lparr>plugin = Plugin (example_plugin\<lparr>onPacketReceive := None\<rparr>),
         cmdParam_opts = example_opts,
         events = [ThrowNewError
                     \<lparr>message = ''self-signed certificate'', fatal = True,
                      sqlState = ''08000'', errno = ER_SELF_SIGNED\<rparr>]\<rparr>,
        example_self_signed\<lparr>status := 2\<rparr>)"
    using self_signed_needs_matching_hash [OF k f s, of example_env example_this example_opts] r
    by (simp add: c emit_def)
  have v: "events (fst (snd (handshakeResult example_env example_this
                         (example_ok_hash_packet ?good) example_opts
                         example_self_signed))) = [SuccessEnd]"
    by code_simp
  have e: "events example_this = []"
    by (simp add: example_this_def)
  have m: "SuccessEnd \<in> set (drop (length (events example_this))
             (events (fst (snd (handshakeResult example_env example_this
                (example_ok_hash_packet ?good) example_opts example_self_signed)))))"
    unfolding v e by simp
  have t2: "\<exists>validationHash.
         fst (readBufferLengthEncoded
                (skip 2 \<lparr>buf = buf (example_ok_hash_packet ?good), pos = 5\<rparr>))
           = Some validationHash
         \<and> validationHash \<noteq> []
         \<and> validateFingerPrint example_env example_this validationHash example_self_signed
             = Inr True"
    using self_signed_needs_matching_hash [OF k' f example_hash_packet_status,
        of example_env example_this example_opts] m
    by blast
  from k f t1 v t2 show ?thesis by blast
qed

subsection \<open>Names outside the plugin table\<close>

text \<open>A mechanism name that is neither a key of the table nor a property of
  \<^verbatim>\<open>Object.prototype\<close>, when no allow-list excludes it and a plugin is active: the
  plugin gets its \<^verbatim>\<open>end\<close> and loses its callback, and \<^verbatim>\<open>this.reject\<close> receives
  the fatal error of SQLSTATE \<^verbatim>\<open>08004\<close> whose message names the mechanism; no
  plugin is built or started.\<close>

lemma unsupported_mechanism_rejected:
  assumes "peek packet = Some (CHR 0xFE)"
    and "readAuthSwitchRequest packet info = (pluginName, data)"
    and "restrictedAuth opts = None
         \<or> (\<exists>allowed. restrictedAuth opts = Some allowed \<and> pluginName \<in> set allowed)"
    and "map_of authenticationPlugins pluginName = None"
    and "pluginName \<notin> set (''constructor'' # Object_prototype_methods)"
    and "plugin this = Plugin p"
  shows "handshakeResult env this packet opts info =
           (Inr (),
            this\<lparr>plugin := Plugin (p\<lparr>onPacketReceive := None\<rparr>),
                 events := events this
                   @ [Plugin_emit_end (cls p),
                      Reject (Sql_Error
                        \<lparr>message = ''Client does not support authentication protocol ''
                                    @ [CHR 0x27] @ pluginName @ [CHR 0x27]
                                    @ '' requested by server.'',
                         fatal = True, sqlState = ''08004'',
                         errno = ER_AUTHENTICATION_PLUGIN_NOT_SUPPORTED\<rparr>)]\<rparr>,
            info)"
proof -
  have u: "property_of pluginName = Undefined"
    using assms(4,5) by (simp add: property_of_def)
  have t: "trySwitchPlugin this pluginName data =
             this\<lparr>plugin := Plugin (p\<lparr>onPacketReceive := None\<rparr>),
                  events := events this
                    @ [Plugin_emit_end (cls p), Reject (Sql_Error (unsupported_error pluginName))]\<rparr>"
    using assms(6) u
    by (simp add: trySwitchPlugin_def pluginHandler_def clear_onPacketReceive_def emit_def Let_def)
  show ?thesis
    using assms(1,2,3)
    by (auto simp: handshakeResult_def dispatchAuthSwitchRequest_def t unsupported_error_def)
qed

text \<open>Claim C6. The claim asks that every mechanism name that passes the allow-list and
  is no key of the plugin table ends in the fatal error of SQLSTATE \<^verbatim>\<open>08004\<close>, with
  no plugin built and no \<^verbatim>\<open>start\<close>. For the name \<^verbatim>\<open>constructor\<close> the source does
  otherwise: the property read finds the function \<^verbatim>\<open>Object\<close>, the test
  \<^verbatim>\<open>!pluginAuth\<close> is false, \<^verbatim>\<open>new\<close> builds an object that is no plugin and is
  stored in \<^verbatim>\<open>this.plugin\<close>, and the call of its missing \<^verbatim>\<open>start\<close> is a
  \<^verbatim>\<open>TypeError\<close>, which is what \<^verbatim>\<open>this.reject\<close> receives.\<close>

theorem switch_to_constructor:
  "readAuthSwitchRequest (example_switch_packet ''constructor'') example_info
     = (''constructor'', [CHR 0x01, CHR 0x02, CHR 0x03])
   \<and> map_of authenticationPlugins ''constructor'' = None
   \<and> restrictedAuth example_opts = None
   \<and> dispatchAuthSwitchRequest example_this (example_switch_packet ''constructor'')
        example_opts example_info =
       \<lparr>plugin = Plain_Object, cmdParam_opts = example_opts,
        events = [Plugin_emit_end Handshake, Object_new, Reject TypeError]\<rparr>"
  by code_simp

end
